theory Spec2Isabelle
  imports Complex_Main "HOL-Library.AList" "HOL-Library.Sublist"
begin

section \<open>JavaScript values\<close>

text \<open>
  The journal (\<^verbatim>\<open>src/index.tsx\<close>) keeps its trades as plain JavaScript objects: a trade
  made by the form is an object literal, a trade made by the import is whatever
  \<^verbatim>\<open>JSON.parse\<close> returned, with an \<^verbatim>\<open>id\<close> added. The TypeScript interface
  \<^verbatim>\<open>Trade\<close> is not checked at run time, so the model keeps the run-time shape.

  A number is a double. \<open>Fin r\<close> carries the exact value \<open>r\<close>; rounding to binary64 is not
  modelled, and \<open>+0\<close> and \<open>-0\<close> are both \<open>Fin 0\<close>.
\<close>

datatype jsnum = NaN | PInf | NInf | Fin real

datatype jsval =
    JUndef
  | JNull
  | JBool bool
  | JNum jsnum
  | JStr string
  | JArr "jsval list"
  | JObj "(string \<times> jsval) list"

type_synonym jsobj = "(string \<times> jsval) list"

text \<open>Truthiness, as \<^verbatim>\<open>!x\<close>, \<^verbatim>\<open>x || y\<close> and \<^verbatim>\<open>if (x)\<close> read it.\<close>

fun truthy_num :: "jsnum \<Rightarrow> bool" where
  "truthy_num NaN = False"
| "truthy_num PInf = True"
| "truthy_num NInf = True"
| "truthy_num (Fin r) = (r \<noteq> 0)"

fun truthy :: "jsval \<Rightarrow> bool" where
  "truthy JUndef = False"
| "truthy JNull = False"
| "truthy (JBool b) = b"
| "truthy (JNum n) = truthy_num n"
| "truthy (JStr s) = (s \<noteq> [])"
| "truthy (JArr xs) = True"
| "truthy (JObj kvs) = True"

text \<open>
  \<open>field v k\<close> is the property read \<^verbatim>\<open>v.k\<close> for a plain property name \<open>k\<close> (none of
  the names the source reads is \<^verbatim>\<open>length\<close> or an index): a \<^verbatim>\<open>TypeError\<close> on
  \<^verbatim>\<open>undefined\<close> and \<^verbatim>\<open>null\<close>, the stored value on an object that has the key,
  \<^verbatim>\<open>undefined\<close> everywhere else.
\<close>

datatype error = TypeError

fun field :: "jsval \<Rightarrow> string \<Rightarrow> error + jsval" where
  "field JUndef k = Inl TypeError"
| "field JNull k = Inl TypeError"
| "field (JObj kvs) k = Inr (case map_of kvs k of None \<Rightarrow> JUndef | Some v \<Rightarrow> v)"
| "field v k = Inr JUndef"

subsection \<open>Decimal rendering of a non-negative integer\<close>

text \<open>
  \<^verbatim>\<open>Date.now()\<close> and an array index are non-negative integers; \<^verbatim>\<open>toString()\<close> and
  a template literal render them in decimal.
\<close>

definition digit_char :: "nat \<Rightarrow> char" where
  "digit_char d = char_of (48 + d)"

fun show_nat :: "nat \<Rightarrow> string" where
  "show_nat n = (if n < 10 then [digit_char n] else show_nat (n div 10) @ [digit_char (n mod 10)])"

declare show_nat.simps [simp del]

text \<open>
  Spreading a value into an object literal, \<^verbatim>\<open>{...v}\<close>: the own enumerable properties
  of an object, the indexed elements of an array, the indexed characters of a string,
  nothing for the other primitives.
\<close>

fun spread :: "jsval \<Rightarrow> jsobj" where
  "spread (JObj kvs) = kvs"
| "spread (JArr xs) = zip (map show_nat [0..<length xs]) xs"
| "spread (JStr s) = zip (map show_nat [0..<length s]) (map (\<lambda>c. JStr [c]) s)"
| "spread v = []"

section \<open>The component's state\<close>

text \<open>
  The state of \<^verbatim>\<open>App\<close> (lines 50-53) and what it does to the outside: the
  \<^verbatim>\<open>alert\<close> messages shown, the \<^verbatim>\<open>console.error\<close> lines, the requests sent to the
  external model and the files written, each in order. \<open>analysisResult\<close> is absent when
  it is falsy (\<^verbatim>\<open>null\<close> at the start and after a reset).
\<close>

datatype request =
    ImportRequest "jsval list"    \<comment> \<open>the import prompt, by the sample it embeds\<close>
  | AnalysisRequest "jsval list"  \<comment> \<open>the analysis prompt, by the trades it renders as CSV\<close>

type_synonym sheet = "jsval list"
type_synonym workbook = "(string \<times> sheet) list"

record app_state =
  trades :: "jsval list"
  loading :: bool
  loadingMessage :: string
  analysisResult :: jsval
  alerts :: "string list"
  console :: "string list"
  requests :: "request list"
  files :: "(string \<times> workbook) list"

definition initial_state :: app_state where
  "initial_state =
     \<lparr> trades = [], loading = False, loadingMessage = ''Initializing Journal...'',
       analysisResult = JNull, alerts = [], console = [], requests = [], files = [] \<rparr>"

definition alert :: "string \<Rightarrow> app_state \<Rightarrow> app_state" where
  "alert msg st = st\<lparr>alerts := alerts st @ [msg]\<rparr>"

definition console_error :: "string \<Rightarrow> app_state \<Rightarrow> app_state" where
  "console_error msg st = st\<lparr>console := console st @ [msg]\<rparr>"

text \<open>
  What a call of the external model comes to, as the code sees it: building the client
  throws, before any request; the call throws; the response text is rejected by
  \<^verbatim>\<open>JSON.parse\<close>; or \<^verbatim>\<open>JSON.parse\<close> returns a value. The text is read only through
  \<^verbatim>\<open>JSON.parse\<close>, so it is represented by that outcome.
\<close>

datatype ai_outcome = ClientError | CallError | BadJson | Json jsval

subsection \<open>addTrade (lines 212-215)\<close>

definition addTrade :: "nat \<Rightarrow> jsobj \<Rightarrow> app_state \<Rightarrow> app_state" where
  "addTrade now trade st =
     st\<lparr>trades := trades st @ [JObj (AList.update ''id'' (JStr (show_nat now)) trade)]\<rparr>"

subsection \<open>runAiImport (lines 217-283)\<close>

text \<open>
  \<open>excelJson\<close> is \<open>None\<close> for \<^verbatim>\<open>null\<close> or \<^verbatim>\<open>undefined\<close>. \<open>clk i\<close> is the reading of
  \<^verbatim>\<open>Date.now()\<close> when the id of the element at index \<open>i\<close> is built (the call is inside the
  \<^verbatim>\<open>map\<close> callback). The function is run to completion: \<open>loading\<close> is set on entry and
  reset in \<^verbatim>\<open>finally\<close>.
\<close>

definition import_id :: "nat \<Rightarrow> nat \<Rightarrow> string" where
  "import_id now index = ''ai-import-'' @ show_nat now @ ''-'' @ show_nat index"

definition newTradesWithIds :: "(nat \<Rightarrow> nat) \<Rightarrow> jsval list \<Rightarrow> jsval list" where
  "newTradesWithIds clk importedTrades =
     map (\<lambda>(index, trade). JObj (AList.update ''id'' (JStr (import_id (clk index) index)) (spread trade)))
         (enumerate 0 importedTrades)"

definition import_failed :: "app_state \<Rightarrow> app_state" where
  "import_failed st =
     alert ''An error occurred during AI import. Please check the console for details.''
       (console_error ''Error during AI Import:'' st)"

definition runAiImport :: "(nat \<Rightarrow> nat) \<Rightarrow> ai_outcome \<Rightarrow> jsval list option \<Rightarrow> app_state \<Rightarrow> app_state" where
  "runAiImport clk outcome excelJson st =
     (case excelJson of
        None \<Rightarrow> alert ''The Excel file is empty or could not be read.'' st
      | Some rows \<Rightarrow>
          if length rows = 0 then alert ''The Excel file is empty or could not be read.'' st
          else
            let st1 = st\<lparr>loading := True, loadingMessage := ''AI is interpreting your Excel file...''\<rparr>;
                dataSample = take 100 rows;
                st2 = st1\<lparr>requests := requests st1 @ [ImportRequest dataSample]\<rparr>;
                st3 = (case outcome of
                         ClientError \<Rightarrow> import_failed st1
                       | CallError \<Rightarrow> import_failed st2
                       | BadJson \<Rightarrow> import_failed st2
                       | Json importedTrades \<Rightarrow>
                           (case importedTrades of
                              JArr xs \<Rightarrow>
                                if length xs > 0 then
                                  let new = newTradesWithIds clk xs
                                  in alert (''Successfully imported '' @ show_nat (length new) @ '' trades!'')
                                       (st2\<lparr>trades := trades st2 @ new\<rparr>)
                                else alert ''AI could not find any valid trades in the file. Please check the file content and try again.'' st2
                            | _ \<Rightarrow> alert ''AI could not find any valid trades in the file. Please check the file content and try again.'' st2))
            in st3\<lparr>loading := False\<rparr>)"

subsection \<open>runAiAnalysis (lines 362-432)\<close>

text \<open>
  Building the CSV text reads \<^verbatim>\<open>t.emotion.replace(...)\<close> for every trade: a
  \<^verbatim>\<open>TypeError\<close>, thrown inside the \<^verbatim>\<open>try\<close>, unless \<open>t\<close> is an object whose
  \<^verbatim>\<open>emotion\<close> is a string.
\<close>

fun csv_row_ok :: "jsval \<Rightarrow> bool" where
  "csv_row_ok (JObj kvs) = (case map_of kvs ''emotion'' of Some (JStr s) \<Rightarrow> True | _ \<Rightarrow> False)"
| "csv_row_ok v = False"

definition analysis_failed :: "app_state \<Rightarrow> app_state" where
  "analysis_failed st =
     alert ''An error occurred during AI analysis. Please check the console for details.''
       (console_error ''Error with AI Analysis:'' st)"

definition runAiAnalysis :: "ai_outcome \<Rightarrow> app_state \<Rightarrow> app_state" where
  "runAiAnalysis outcome st =
     (if length (trades st) < 3 then alert ''Please add at least 3 trades to run AI analysis.'' st
      else
        let st1 = st\<lparr>loading := True, analysisResult := JNull,
                     loadingMessage := ''AI is analyzing your trades...''\<rparr>;
            st3 = (if outcome = ClientError then analysis_failed st1
                   else if \<not> list_all csv_row_ok (trades st) then analysis_failed st1
                   else
                     let st2 = st1\<lparr>loadingMessage := ''Waiting for Gemini API...'',
                                   requests := requests st1 @ [AnalysisRequest (trades st)]\<rparr>
                     in (case outcome of
                           Json resultJson \<Rightarrow> st2\<lparr>analysisResult := resultJson\<rparr>
                         | _ \<Rightarrow> analysis_failed st2))
        in st3\<lparr>loading := False\<rparr>)"

subsection \<open>handleDownload (lines 316-360)\<close>

text \<open>
  The spreadsheet library is external: a sheet is the row list handed to
  \<^verbatim>\<open>json_to_sheet\<close>, a workbook the named sheets in the order of
  \<^verbatim>\<open>book_append_sheet\<close>, and \<^verbatim>\<open>writeFile\<close> adds the named workbook to \<open>files\<close>.
  A \<^verbatim>\<open>TypeError\<close> leaves the handler before anything is written.
\<close>

definition bind_err :: "error + 'a \<Rightarrow> ('a \<Rightarrow> error + 'b) \<Rightarrow> error + 'b" where
  "bind_err m f = (case m of Inl e \<Rightarrow> Inl e | Inr x \<Rightarrow> f x)"

fun sequence_err :: "(error + 'a) list \<Rightarrow> error + 'a list" where
  "sequence_err [] = Inr []"
| "sequence_err (m # ms) = bind_err m (\<lambda>x. bind_err (sequence_err ms) (\<lambda>xs. Inr (x # xs)))"

text \<open>\<open>element v i\<close> is the indexed read \<^verbatim>\<open>v[i]\<close>.\<close>

fun element :: "jsval \<Rightarrow> nat \<Rightarrow> error + jsval" where
  "element JUndef i = Inl TypeError"
| "element JNull i = Inl TypeError"
| "element (JArr xs) i = Inr (if i < length xs then xs ! i else JUndef)"
| "element (JStr s) i = Inr (if i < length s then JStr [s ! i] else JUndef)"
| "element (JObj kvs) i = Inr (case map_of kvs (show_nat i) of None \<Rightarrow> JUndef | Some v \<Rightarrow> v)"
| "element v i = Inr JUndef"

definition summaryData :: "jsval \<Rightarrow> error + jsval list" where
  "summaryData result =
     sequence_err
       (map (\<lambda>(metric, key).
               bind_err (field result ''metrics'') (\<lambda>metrics.
               bind_err (field metrics key) (\<lambda>v.
               Inr (JObj [(''Metric'', JStr metric), (''Value'', v)]))))
          [(''Total Net PnL'', ''totalNetPnl''), (''Total Profit'', ''totalProfit''),
           (''Total Loss'', ''totalLoss''), (''Win Rate'', ''winRate''),
           (''Total Trades'', ''totalTrades''), (''Total Commissions'', ''totalCommissions''),
           (''Most Profitable Session'', ''mostProfitableSession''),
           (''Best Performing Grade'', ''bestPerformingGrade'')])"

text \<open>
  \<^verbatim>\<open>analysisResult.series.labels.map((label, index) => ({L: label, D: analysisResult.series.data[index]}))\<close>:
  calling \<^verbatim>\<open>map\<close> on anything but an array is a \<^verbatim>\<open>TypeError\<close>.
\<close>

definition chartWsData :: "jsval \<Rightarrow> string \<Rightarrow> string \<Rightarrow> string \<Rightarrow> error + jsval list" where
  "chartWsData result series labelColumn dataColumn =
     bind_err (field result series) (\<lambda>chart.
     bind_err (field chart ''labels'') (\<lambda>labels.
       case labels of
         JArr ls \<Rightarrow>
           sequence_err
             (map (\<lambda>(index, label).
                     bind_err (field chart ''data'') (\<lambda>data.
                     bind_err (element data index) (\<lambda>v.
                     Inr (JObj [(labelColumn, label), (dataColumn, v)]))))
                (enumerate 0 ls))
       | _ \<Rightarrow> Inl TypeError))"

definition build_workbook :: "jsval \<Rightarrow> jsval list \<Rightarrow> error + workbook" where
  "build_workbook result trs =
     bind_err (summaryData result) (\<lambda>summaryWs.
     bind_err (chartWsData result ''cumulativePnlData'' ''Date'' ''Cumulative PnL'') (\<lambda>cumulativePnlWs.
     bind_err (chartWsData result ''outcomeDistributionData'' ''Outcome'' ''Count'') (\<lambda>outcomeWs.
     bind_err (chartWsData result ''sessionPnlData'' ''Session'' ''Net PnL'') (\<lambda>sessionWs.
     bind_err (chartWsData result ''gradePnlData'' ''Grade'' ''Net PnL'') (\<lambda>gradeWs.
     Inr [(''Analysis Summary'', summaryWs), (''All Trades'', trs),
          (''Cumulative PnL Data'', cumulativePnlWs), (''Outcome Distribution Data'', outcomeWs),
          (''Session PnL Data'', sessionWs), (''Grade PnL Data'', gradeWs)])))))"

definition handleDownload :: "app_state \<Rightarrow> error + app_state" where
  "handleDownload st =
     (if \<not> truthy (analysisResult st)
      then Inr (alert ''Please run the AI Analysis first to generate a report.'' st)
      else bind_err (build_workbook (analysisResult st) (trades st)) (\<lambda>wb.
             Inr (st\<lparr>files := files st @ [(''AI_Trading_Analysis.xlsx'', wb)]\<rparr>)))"

subsection \<open>Loading the saved journal (lines 69-76)\<close>

text \<open>
  What the load finds under the key \<^verbatim>\<open>tradingJournalTrades\<close>: \<^verbatim>\<open>getItem\<close> throws;
  it returns \<^verbatim>\<open>null\<close>; it returns the empty string (falsy as well); it returns a text
  that \<^verbatim>\<open>JSON.parse\<close> rejects; or a text that parses to an array, which is what the
  component itself saves. A text that parses to something else than an array is outside
  this model.
\<close>

datatype stored = GetItemThrows | Absent | EmptyText | Unparseable | Parsed "jsval list"

definition loadTrades :: "stored \<Rightarrow> app_state \<Rightarrow> app_state" where
  "loadTrades savedTrades st =
     (case savedTrades of
        GetItemThrows \<Rightarrow> console_error ''Failed to load trades from local storage:'' st
      | Absent \<Rightarrow> st
      | EmptyText \<Rightarrow> st
      | Unparseable \<Rightarrow> console_error ''Failed to load trades from local storage:'' st
      | Parsed xs \<Rightarrow> st\<lparr>trades := xs\<rparr>)"

section \<open>The trade form (lines 489-538)\<close>

text \<open>
  A form value is what \<^verbatim>\<open>handleChange\<close> stores: the \<^verbatim>\<open>checked\<close> flag of a checkbox or
  the \<^verbatim>\<open>value\<close> string of any other element. \<open>today\<close> is the date string
  \<^verbatim>\<open>new Date().toISOString().substring(0, 10)\<close>.
\<close>

datatype form_value = Text string | Check bool

type_synonym form = "(string \<times> form_value) list"

definition initialFormState :: "string \<Rightarrow> form" where
  "initialFormState today =
     [(''date'', Text today), (''pair'', Text []), (''lotSize'', Text []),
      (''position'', Text ''long''), (''status'', Text ''win''), (''pnl'', Text []),
      (''commission'', Text []), (''session'', Text ''london''), (''bias'', Text ''ranging''),
      (''confirmSmt'', Check False), (''newsImpact'', Text ''low''), (''emotion'', Text []),
      (''grade'', Text ''C''), (''notes'', Text [])]"

record change_event =
  target_name :: string
  target_value :: string
  target_type :: string
  target_checked :: bool

definition handleChange :: "change_event \<Rightarrow> form \<Rightarrow> form" where
  "handleChange e prev =
     (let isCheckbox = (target_type e = ''checkbox'')
      in AList.update (target_name e)
           (if isCheckbox then Check (target_checked e) else Text (target_value e)) prev)"

text \<open>
  The elements the form renders (lines 521-534): name, \<^verbatim>\<open>type\<close> as the DOM reports it,
  and for a \<^verbatim>\<open>select\<close> its option values. \<open>dom_event\<close> holds of the change events
  these elements can fire.
\<close>

definition form_elements :: "(string \<times> string \<times> string list option) list" where
  "form_elements =
     [(''date'', ''date'', None), (''pair'', ''text'', None), (''lotSize'', ''number'', None),
      (''position'', ''select-one'', Some [''long'', ''short'']),
      (''status'', ''select-one'', Some [''win'', ''loss'', ''breakeven'']),
      (''pnl'', ''number'', None), (''commission'', ''number'', None),
      (''session'', ''select-one'', Some [''asia'', ''london'', ''new york'']),
      (''bias'', ''select-one'', Some [''bullish'', ''bearish'', ''ranging'']),
      (''newsImpact'', ''select-one'', Some [''none'', ''low'', ''medium'', ''high'']),
      (''emotion'', ''text'', None),
      (''grade'', ''select-one'', Some [''A'', ''B'', ''C'', ''D'', ''F'']),
      (''confirmSmt'', ''checkbox'', None), (''notes'', ''textarea'', None)]"

definition dom_event :: "change_event \<Rightarrow> bool" where
  "dom_event e =
     (case map_of form_elements (target_name e) of
        None \<Rightarrow> False
      | Some (ty, options) \<Rightarrow>
          target_type e = ty \<and>
          (case options of None \<Rightarrow> True | Some vs \<Rightarrow> target_value e \<in> set vs))"

subsection \<open>parseFloat\<close>

text \<open>
  The built-in \<^verbatim>\<open>parseFloat\<close> on a string: leading white space is skipped, the longest
  prefix that is a decimal literal (sign, \<^verbatim>\<open>Infinity\<close> or digits with an optional
  fraction and exponent) is read, and \<^verbatim>\<open>NaN\<close> is returned when there is none. Characters
  are single bytes here, so the white space is the ASCII white space and the no-break space.
\<close>

definition is_digit :: "char \<Rightarrow> bool" where
  "is_digit c = (c \<in> set ''0123456789'')"

definition StrWhiteSpaceChar :: "char \<Rightarrow> bool" where
  "StrWhiteSpaceChar c = (c \<in> set [CHR 0x09, CHR 0x0A, CHR 0x0B, CHR 0x0C, CHR 0x0D, CHR 0x20, CHR 0xA0])"

definition digits_value :: "string \<Rightarrow> nat" where
  "digits_value ds = foldl (\<lambda>a c. 10 * a + (of_char c - 48)) 0 ds"

definition split_sign :: "string \<Rightarrow> bool \<times> string" where
  "split_sign s =
     (case s of
        [] \<Rightarrow> (False, s)
      | c # r \<Rightarrow> if c = CHR ''-'' then (True, r) else if c = CHR ''+'' then (False, r) else (False, s))"

definition exponent_part :: "string \<Rightarrow> int" where
  "exponent_part s =
     (case s of
        [] \<Rightarrow> 0
      | c # r \<Rightarrow>
          if c = CHR ''e'' \<or> c = CHR ''E'' then
            (let (neg, r') = split_sign r; ds = takeWhile is_digit r'
             in if ds = [] then 0
                else if neg then - int (digits_value ds) else int (digits_value ds))
          else 0)"

definition parseFloat :: "string \<Rightarrow> jsnum" where
  "parseFloat inputString =
     (let trimmedString = dropWhile StrWhiteSpaceChar inputString;
          (neg, body) = split_sign trimmedString
      in if take 8 body = ''Infinity'' then (if neg then NInf else PInf)
         else
           let ip = takeWhile is_digit body;
               r1 = dropWhile is_digit body;
               dot = (r1 \<noteq> [] \<and> hd r1 = CHR ''.'');
               fp = (if dot then takeWhile is_digit (tl r1) else []);
               r2 = (if dot then dropWhile is_digit (tl r1) else r1)
           in if ip = [] \<and> fp = [] then NaN
              else
                let e = exponent_part r2;
                    m = real (digits_value ip) + real (digits_value fp) / 10 ^ length fp;
                    v = (if e < 0 then m / 10 ^ nat (- e) else m * 10 ^ nat e)
                in Fin (if neg then - v else v))"

subsection \<open>handleSubmit (lines 504-517)\<close>

text \<open>
  \<open>falsy_field\<close> is \<^verbatim>\<open>!form.k\<close> and \<open>parseFloat_field\<close> is \<^verbatim>\<open>parseFloat(form.k)\<close>, which
  first turns its argument into a string (\<^verbatim>\<open>"undefined"\<close>, \<^verbatim>\<open>"true"\<close> and \<^verbatim>\<open>"false"\<close>
  start no number). \<open>or_zero n\<close> is \<^verbatim>\<open>n || 0\<close>.
\<close>

fun falsy_field :: "form_value option \<Rightarrow> bool" where
  "falsy_field None = True"
| "falsy_field (Some (Text s)) = (s = [])"
| "falsy_field (Some (Check b)) = (\<not> b)"

fun parseFloat_field :: "form_value option \<Rightarrow> jsnum" where
  "parseFloat_field None = NaN"
| "parseFloat_field (Some (Text s)) = parseFloat s"
| "parseFloat_field (Some (Check b)) = NaN"

definition or_zero :: "jsnum \<Rightarrow> jsnum" where
  "or_zero n = (if truthy_num n then n else Fin 0)"

fun form_value_js :: "form_value \<Rightarrow> jsval" where
  "form_value_js (Text s) = JStr s"
| "form_value_js (Check b) = JBool b"

definition form_js :: "form \<Rightarrow> jsobj" where
  "form_js f = map (\<lambda>(k, v). (k, form_value_js v)) f"

text \<open>The object literal handed to \<^verbatim>\<open>addTrade\<close> (lines 510-515).\<close>

definition submitted_trade :: "form \<Rightarrow> jsobj" where
  "submitted_trade f =
     AList.update ''commission'' (JNum (or_zero (parseFloat_field (map_of f ''commission'')))) (
     AList.update ''pnl'' (JNum (parseFloat_field (map_of f ''pnl''))) (
     AList.update ''lotSize'' (JNum (or_zero (parseFloat_field (map_of f ''lotSize'')))) (
     form_js f)))"

definition handleSubmit :: "string \<Rightarrow> nat \<Rightarrow> form \<Rightarrow> app_state \<Rightarrow> form \<times> app_state" where
  "handleSubmit today now f st =
     (if falsy_field (map_of f ''pair'') \<or> falsy_field (map_of f ''pnl'')
      then (f, alert ''Please fill at least Pair and PnL (Rp).'' st)
      else (initialFormState today, addTrade now (submitted_trade f) st))"

section \<open>Runs of the journal\<close>

text \<open>
  The user's operations on a mounted component, each run to completion before the next:
  a form submission (with the clock reading it would use), an import (with the clock, the
  model's answer and the parsed rows), an analysis (with the model's answer) and an export.
\<close>

datatype event =
    Submit string nat form
  | Import "nat \<Rightarrow> nat" ai_outcome "jsval list option"
  | Analyse ai_outcome
  | Download

fun step :: "event \<Rightarrow> app_state \<Rightarrow> app_state" where
  "step (Submit today now f) st = snd (handleSubmit today now f st)"
| "step (Import clk outcome excelJson) st = runAiImport clk outcome excelJson st"
| "step (Analyse outcome) st = runAiAnalysis outcome st"
| "step Download st = (case handleDownload st of Inl e \<Rightarrow> st | Inr st' \<Rightarrow> st')"

definition run :: "event list \<Rightarrow> app_state \<Rightarrow> app_state" where
  "run evs st = foldl (\<lambda>s ev. step ev s) st evs"

text \<open>
  The values \<^verbatim>\<open>Date.now()\<close> returns during an operation: one for an accepted
  submission, one per imported element for an import that reaches the \<^verbatim>\<open>map\<close>, none
  otherwise. \<open>fresh_clock\<close> holds of a run in which no value is returned to two different
  operations.
\<close>

fun clock_readings :: "event \<Rightarrow> nat list" where
  "clock_readings (Submit today now f) =
     (if falsy_field (map_of f ''pair'') \<or> falsy_field (map_of f ''pnl'') then [] else [now])"
| "clock_readings (Import clk (Json (JArr xs)) (Some rows)) =
     (if rows = [] then [] else map clk [0..<length xs])"
| "clock_readings ev = []"

fun fresh_clock :: "event list \<Rightarrow> bool" where
  "fresh_clock [] = True"
| "fresh_clock (ev # evs) =
     ((\<forall>t \<in> set (clock_readings ev). \<forall>ev' \<in> set evs. t \<notin> set (clock_readings ev')) \<and> fresh_clock evs)"

definition trade_ids :: "app_state \<Rightarrow> (error + jsval) list" where
  "trade_ids st = map (\<lambda>t. field t ''id'') (trades st)"

section \<open>The declared trade type\<close>

text \<open>
  The enum fields of the interface \<^verbatim>\<open>Trade\<close> (lines 11-20) with their declared values, and
  the check that a run-time trade holds one of them in each.
\<close>

definition enum_fields :: "(string \<times> string list) list" where
  "enum_fields =
     [(''position'', [''long'', ''short'']),
      (''status'', [''win'', ''loss'', ''breakeven'']),
      (''session'', [''asia'', ''london'', ''new york'']),
      (''bias'', [''bullish'', ''bearish'', ''ranging'']),
      (''newsImpact'', [''high'', ''medium'', ''low'', ''none'']),
      (''grade'', [''A'', ''B'', ''C'', ''D'', ''F''])]"

definition enums_declared :: "jsval \<Rightarrow> bool" where
  "enums_declared t = list_all (\<lambda>(k, vs). list_ex (\<lambda>v. field t k = Inr (JStr v)) vs) enum_fields"

text \<open>The interface \<^verbatim>\<open>Trade\<close> (lines 6-22) as a typed record; \<open>pnl\<close> and \<open>commission\<close> are
  taken as exact reals.\<close>

datatype Position = Long | Short
datatype Status = Win | Loss | Breakeven
datatype Session = Asia | London | NewYork
datatype Bias = Bullish | Bearish | Ranging
datatype NewsImpact = High | Medium | Low | NoImpact
datatype Grade = GradeA | GradeB | GradeC | GradeD | GradeF

record Trade =
  ident :: string
  date :: string
  pair :: string
  lotSize :: real
  position :: Position
  status :: Status
  pnl :: real
  commission :: real
  session :: Session
  bias :: Bias
  confirmSmt :: bool
  newsImpact :: NewsImpact
  emotion :: string
  grade :: Grade
  notes_text :: string

text \<open>
  Modelled from the spec: the aggregation of the metrics. The repository holds no code
  that computes them: \<^verbatim>\<open>runAiAnalysis\<close> asks the external model for them and publishes
  its answer as it comes. The definitions follow section 4.2 of the specification, which
  the prompt (lines 382-384) words the same way: \<^verbatim>\<open>totalNetPnl\<close> is the sum of
  \<^verbatim>\<open>pnl - commission\<close>, \<^verbatim>\<open>totalProfit\<close> the sum of the positive \<^verbatim>\<open>pnl\<close>,
  \<^verbatim>\<open>totalLoss\<close> the sum of the negative \<^verbatim>\<open>pnl\<close> as a positive number, and
  \<^verbatim>\<open>totalCommissions\<close> the sum of \<^verbatim>\<open>commission\<close>.
\<close>

definition totalNetPnl :: "Trade list \<Rightarrow> real" where
  "totalNetPnl ts = sum_list (map (\<lambda>t. pnl t - commission t) ts)"

definition totalProfit :: "Trade list \<Rightarrow> real" where
  "totalProfit ts = sum_list (map pnl (filter (\<lambda>t. pnl t > 0) ts))"

definition totalLoss :: "Trade list \<Rightarrow> real" where
  "totalLoss ts = \<bar>sum_list (map pnl (filter (\<lambda>t. pnl t < 0) ts))\<bar>"

definition totalCommissions :: "Trade list \<Rightarrow> real" where
  "totalCommissions ts = sum_list (map commission ts)"

section \<open>Auxiliary notions for the proofs\<close>

text \<open>A clock that does not advance while an import builds its ids (the loop takes less
  than a millisecond).\<close>

definition clock_at :: "nat \<Rightarrow> nat \<Rightarrow> nat" where
  "clock_at t index = t"

text \<open>What reading \<^verbatim>\<open>.id\<close> can give on a trade made from a clock reading in \<open>T\<close>, by
  the form or by the import.\<close>

definition issued_ids :: "nat set \<Rightarrow> (error + jsval) set" where
  "issued_ids T =
     (\<lambda>t. Inr (JStr (show_nat t))) ` T \<union> (\<lambda>(t, i). Inr (JStr (import_id t i))) ` (T \<times> UNIV)"

text \<open>The form holds a declared value in each enum field.\<close>

definition form_enums_declared :: "form \<Rightarrow> bool" where
  "form_enums_declared f = list_all (\<lambda>(k, vs). list_ex (\<lambda>v. map_of f k = Some (Text v)) vs) enum_fields"

text \<open>The form after the change events fired since it was last reset.\<close>

definition form_after :: "string \<Rightarrow> change_event list \<Rightarrow> form" where
  "form_after today evs = foldl (\<lambda>f e. handleChange e f) (initialFormState today) evs"

section \<open>Example inputs\<close>

text \<open>Change events that fill in the two required fields and pick a position, and the
  form they leave.\<close>

definition fill_events :: "change_event list" where
  "fill_events =
     [\<lparr>target_name = ''pair'', target_value = ''EURUSD'', target_type = ''text'', target_checked = False\<rparr>,
      \<lparr>target_name = ''pnl'', target_value = ''150000'', target_type = ''number'', target_checked = False\<rparr>,
      \<lparr>target_name = ''position'', target_value = ''short'', target_type = ''select-one'', target_checked = False\<rparr>]"

definition filled_form :: form where
  "filled_form = form_after ''2024-01-01'' fill_events"

text \<open>A form state whose lot size text starts no number and whose commission is empty.\<close>

definition unparseable_form :: form where
  "unparseable_form =
     form_after ''2024-01-01''
       [\<lparr>target_name = ''pair'', target_value = ''XAUUSD'', target_type = ''text'', target_checked = False\<rparr>,
        \<lparr>target_name = ''pnl'', target_value = ''-50000'', target_type = ''number'', target_checked = False\<rparr>,
        \<lparr>target_name = ''lotSize'', target_value = ''abc'', target_type = ''number'', target_checked = False\<rparr>]"

text \<open>A parsed spreadsheet row, and an answer of the model that keeps the sheet's word
  \<^verbatim>\<open>buy\<close> for the position and leaves the other enum fields out.\<close>

definition sheet_row :: jsval where
  "sheet_row = JObj [(''Symbol'', JStr ''EURUSD''), (''Side'', JStr ''buy''), (''Profit'', JNum (Fin 100))]"

definition model_trade :: jsval where
  "model_trade = JObj [(''pair'', JStr ''EURUSD''), (''position'', JStr ''buy''), (''pnl'', JNum (Fin 100))]"

text \<open>Three stored trades, enough for an analysis, and a complete answer to one.\<close>

definition three_trades :: "jsval list" where
  "three_trades =
     [JObj [(''id'', JStr ''1''), (''emotion'', JStr ''calm'')],
      JObj [(''id'', JStr ''2''), (''emotion'', JStr [])],
      JObj [(''id'', JStr ''3''), (''emotion'', JStr ''bold'')]]"

definition chart :: "string list \<Rightarrow> real list \<Rightarrow> jsval" where
  "chart ls ds = JObj [(''labels'', JArr (map JStr ls)), (''data'', JArr (map (\<lambda>d. JNum (Fin d)) ds))]"

definition full_result :: jsval where
  "full_result =
     JObj [(''metrics'', JObj [(''totalNetPnl'', JStr ''Rp 33000''), (''totalProfit'', JStr ''Rp 100000''),
                              (''totalLoss'', JStr ''Rp 50000''), (''winRate'', JStr ''33.33%''),
                              (''totalTrades'', JNum (Fin 3)), (''totalCommissions'', JStr ''Rp 17000''),
                              (''mostProfitableSession'', JStr ''london''), (''bestPerformingGrade'', JStr ''A'')]),
           (''cumulativePnlData'', chart [''2024-01-01'', ''2024-01-02'', ''2024-01-03''] [90000, 35000, 33000]),
           (''outcomeDistributionData'', chart [''Wins'', ''Losses'', ''Breakeven''] [1, 1, 1]),
           (''sessionPnlData'', chart [''asia'', ''london'', ''new york''] [-55000, 88000, 0]),
           (''gradePnlData'', chart [''A'', ''B''] [88000, -55000])]"

text \<open>The three trades of the scenario in section 8 of the specification.\<close>

definition scenario_trades :: "Trade list" where
  "scenario_trades =
     [\<lparr>ident = ''1'', date = ''2024-01-01'', pair = ''EURUSD'', lotSize = 0, position = Long,
       status = Win, pnl = 100000, commission = 10000, session = London, bias = Ranging,
       confirmSmt = False, newsImpact = Low, emotion = [], grade = GradeA, notes_text = []\<rparr>,
      \<lparr>ident = ''2'', date = ''2024-01-02'', pair = ''EURUSD'', lotSize = 0, position = Long,
       status = Loss, pnl = -50000, commission = 5000, session = Asia, bias = Ranging,
       confirmSmt = False, newsImpact = Low, emotion = [], grade = GradeB, notes_text = []\<rparr>,
      \<lparr>ident = ''3'', date = ''2024-01-03'', pair = ''EURUSD'', lotSize = 0, position = Long,
       status = Breakeven, pnl = 0, commission = 2000, session = London, bias = Ranging,
       confirmSmt = False, newsImpact = Low, emotion = [], grade = GradeA, notes_text = []\<rparr>]"

text \<open>A run of three operations whose clock readings all differ.\<close>

definition example_run :: "event list" where
  "example_run =
     [Submit ''2024-01-01'' 1700000000000 filled_form,
      Import (clock_at 1700000000001) (Json (JArr [model_trade, model_trade])) (Some [sheet_row]),
      Submit ''2024-01-01'' 1700000000002 filled_form]"

text \<open>A journal of two trades with a result on display, and one of three.\<close>

definition two_trade_state :: app_state where
  "two_trade_state = initial_state\<lparr>trades := take 2 three_trades, analysisResult := full_result\<rparr>"

definition three_trade_state :: app_state where
  "three_trade_state = initial_state\<lparr>trades := three_trades, analysisResult := full_result\<rparr>"

section \<open>Lemmas\<close>

subsection \<open>Decimal rendering and ids\<close>

lemma digit_char_code: "d < 10 \<Longrightarrow> (of_char (digit_char d) :: nat) = 48 + d"
  by (simp add: digit_char_def)

lemma show_nat_nonempty: "show_nat n \<noteq> []"
  by (subst show_nat.simps) simp

lemma show_nat_chars: "c \<in> set (show_nat n) \<Longrightarrow> 48 \<le> (of_char c :: nat) \<and> (of_char c :: nat) \<le> 57"
proof (induction n arbitrary: c rule: show_nat.induct)
  case (1 n)
  show ?case
  proof (cases "n < 10")
    case True
    with "1.prems" have "c = digit_char n" by (subst (asm) show_nat.simps) simp
    with True show ?thesis by (simp add: digit_char_code)
  next
    case False
    with "1.prems" have "c \<in> set (show_nat (n div 10)) \<or> c = digit_char (n mod 10)"
      by (subst (asm) show_nat.simps) auto
    then show ?thesis
    proof
      assume "c \<in> set (show_nat (n div 10))"
      with False "1.IH" show ?thesis by blast
    next
      assume "c = digit_char (n mod 10)"
      then show ?thesis by (simp add: digit_char_code)
    qed
  qed
qed

lemma show_nat_inj: "show_nat m = show_nat n \<Longrightarrow> m = n"
proof (induction m arbitrary: n rule: show_nat.induct)
  case (1 m)
  show ?case
  proof (cases "m < 10")
    case m: True
    show ?thesis
    proof (cases "n < 10")
      case True
      with m "1.prems" have "digit_char m = digit_char n"
        by (simp add: show_nat.simps [of m] show_nat.simps [of n])
      then have "(of_char (digit_char m) :: nat) = of_char (digit_char n)" by simp
      with m True show ?thesis by (simp only: digit_char_code)
    next
      case False
      with m "1.prems" have "[digit_char m] = show_nat (n div 10) @ [digit_char (n mod 10)]"
        by (simp add: show_nat.simps [of m] show_nat.simps [of n])
      then have "show_nat (n div 10) = []" by simp
      then show ?thesis by (simp add: show_nat_nonempty)
    qed
  next
    case m: False
    show ?thesis
    proof (cases "n < 10")
      case True
      with m "1.prems" have "show_nat (m div 10) @ [digit_char (m mod 10)] = [digit_char n]"
        by (simp add: show_nat.simps [of m] show_nat.simps [of n])
      then have "show_nat (m div 10) = []" by simp
      then show ?thesis by (simp add: show_nat_nonempty)
    next
      case False
      with m "1.prems" have eq: "show_nat (m div 10) @ [digit_char (m mod 10)] = show_nat (n div 10) @ [digit_char (n mod 10)]"
        by (simp add: show_nat.simps [of m] show_nat.simps [of n])
      then have "show_nat (m div 10) = show_nat (n div 10)" by simp
      with m "1.IH" have q: "m div 10 = n div 10" by blast
      from eq have "digit_char (m mod 10) = digit_char (n mod 10)" by simp
      then have "(of_char (digit_char (m mod 10)) :: nat) = of_char (digit_char (n mod 10))" by simp
      then have r: "m mod 10 = n mod 10" by (simp add: digit_char_code)
      from q r show ?thesis by (metis div_mult_mod_eq)
    qed
  qed
qed

lemma show_nat_no_dash: "CHR ''-'' \<notin> set (show_nat n)"
  using show_nat_chars [of "CHR ''-''" n] by auto

lemma takeWhile_until: "c \<notin> set a \<Longrightarrow> takeWhile (\<lambda>x. x \<noteq> c) (a @ c # b) = a"
  by (induction a) auto

lemma dash_split:
  assumes "a @ CHR ''-'' # b = c @ CHR ''-'' # d" "CHR ''-'' \<notin> set a" "CHR ''-'' \<notin> set c"
  shows "a = c \<and> b = d"
proof -
  have "takeWhile (\<lambda>x. x \<noteq> CHR ''-'') (a @ CHR ''-'' # b) = a"
    using assms(2) by (rule takeWhile_until)
  moreover have "takeWhile (\<lambda>x. x \<noteq> CHR ''-'') (c @ CHR ''-'' # d) = c"
    using assms(3) by (rule takeWhile_until)
  ultimately have "a = c" using assms(1) by simp
  with assms(1) show ?thesis by simp
qed

lemma import_id_inj: "import_id t i = import_id t' i' \<Longrightarrow> t = t' \<and> i = i'"
proof -
  assume "import_id t i = import_id t' i'"
  then have "show_nat t @ CHR ''-'' # show_nat i = show_nat t' @ CHR ''-'' # show_nat i'"
    by (simp add: import_id_def)
  then have "show_nat t = show_nat t' \<and> show_nat i = show_nat i'"
    by (rule dash_split) (rule show_nat_no_dash)+
  then show ?thesis by (simp add: show_nat_inj)
qed

lemma form_id_not_import_id: "show_nat t \<noteq> import_id t' i"
proof
  assume eq: "show_nat t = import_id t' i"
  have "hd (show_nat t) \<in> set (show_nat t)" by (simp add: show_nat_nonempty)
  then have "(of_char (hd (show_nat t)) :: nat) \<le> 57" using show_nat_chars by blast
  then have "(of_char (hd (import_id t' i)) :: nat) \<le> 57" by (simp only: eq)
  then show False by (simp add: import_id_def)
qed


lemma ids_newTradesWithIds:
  "map (\<lambda>t. field t ''id'') (newTradesWithIds clk xs)
     = map (\<lambda>i. Inr (JStr (import_id (clk i) i))) [0..<length xs]"
proof -
  have "map (\<lambda>t. field t ''id'') (newTradesWithIds clk xs)
          = map ((\<lambda>i. Inr (JStr (import_id (clk i) i))) \<circ> fst) (enumerate 0 xs)"
    by (simp add: newTradesWithIds_def update_conv' split_def comp_def)
  also have "\<dots> = map (\<lambda>i. Inr (JStr (import_id (clk i) i))) (map fst (enumerate 0 xs))"
    by (simp only: map_map)
  finally show ?thesis by simp
qed

lemma issued_ids_mono: "T \<subseteq> T' \<Longrightarrow> issued_ids T \<subseteq> issued_ids T'"
  by (auto simp add: issued_ids_def)

lemma form_id_fresh: "now \<notin> T \<Longrightarrow> Inr (JStr (show_nat now)) \<notin> issued_ids T"
  by (auto simp add: issued_ids_def dest: show_nat_inj simp: form_id_not_import_id)

lemma import_id_fresh: "t \<notin> T \<Longrightarrow> Inr (JStr (import_id t i)) \<notin> issued_ids T"
  by (auto simp add: issued_ids_def form_id_not_import_id [symmetric] dest: import_id_inj)

lemma import_ids_distinct: "distinct (map (\<lambda>i. Inr (JStr (import_id (clk i) i)) :: error + jsval) [0..<n])"
  by (auto simp add: distinct_map inj_on_def dest: import_id_inj)

lemma trades_handleSubmit:
  "trades (snd (handleSubmit today now f st)) =
     (if falsy_field (map_of f ''pair'') \<or> falsy_field (map_of f ''pnl'') then trades st
      else trades st @ [JObj (AList.update ''id'' (JStr (show_nat now)) (submitted_trade f))])"
  by (simp add: handleSubmit_def alert_def addTrade_def)

lemma trades_runAiImport:
  "trades (runAiImport clk outcome excelJson st) =
     (case (outcome, excelJson) of
        (Json (JArr xs), Some rows) \<Rightarrow> if rows = [] then trades st else trades st @ newTradesWithIds clk xs
      | _ \<Rightarrow> trades st)"
  by (auto simp add: runAiImport_def Let_def alert_def import_failed_def console_error_def newTradesWithIds_def
      split: ai_outcome.splits jsval.splits option.splits)

lemma trades_runAiAnalysis: "trades (runAiAnalysis outcome st) = trades st"
  by (auto simp add: runAiAnalysis_def Let_def alert_def analysis_failed_def console_error_def
      split: ai_outcome.splits)

lemma trades_handleDownload: "handleDownload st = Inr st' \<Longrightarrow> trades st' = trades st"
  by (auto simp add: handleDownload_def alert_def bind_err_def split: if_splits sum.splits)

subsection \<open>The trades after each operation\<close>

lemma trades_step:
  "trades (step ev st) =
     trades st @
       (case ev of
          Submit today now f \<Rightarrow>
            if falsy_field (map_of f ''pair'') \<or> falsy_field (map_of f ''pnl'') then []
            else [JObj (AList.update ''id'' (JStr (show_nat now)) (submitted_trade f))]
        | Import clk (Json (JArr xs)) (Some rows) \<Rightarrow> if rows = [] then [] else newTradesWithIds clk xs
        | _ \<Rightarrow> [])"
proof (cases ev)
  case (Submit today now f)
  then show ?thesis by (simp add: trades_handleSubmit)
next
  case (Import clk outcome excelJson)
  then show ?thesis
    by (simp add: trades_runAiImport split: ai_outcome.splits jsval.splits option.splits)
next
  case (Analyse outcome)
  then show ?thesis by (simp add: trades_runAiAnalysis)
next
  case Download
  then show ?thesis by (simp add: trades_handleDownload split: sum.splits)
qed

lemma ids_step:
  "trade_ids (step ev st) =
     trade_ids st @
       (case ev of
          Submit today now f \<Rightarrow> map (\<lambda>t. Inr (JStr (show_nat t))) (clock_readings ev)
        | Import clk outcome excelJson \<Rightarrow>
            map (\<lambda>i. Inr (JStr (import_id (clk i) i))) [0..<length (clock_readings ev)]
        | _ \<Rightarrow> [])"
proof -
  have "trade_ids (step ev st) = trade_ids st @ map (\<lambda>t. field t ''id'')
       (case ev of
          Submit today now f \<Rightarrow>
            if falsy_field (map_of f ''pair'') \<or> falsy_field (map_of f ''pnl'') then []
            else [JObj (AList.update ''id'' (JStr (show_nat now)) (submitted_trade f))]
        | Import clk (Json (JArr xs)) (Some rows) \<Rightarrow> if rows = [] then [] else newTradesWithIds clk xs
        | _ \<Rightarrow> [])"
    by (simp only: trade_ids_def trades_step map_append)
  also have "\<dots> = trade_ids st @
       (case ev of
          Submit today now f \<Rightarrow> map (\<lambda>t. Inr (JStr (show_nat t))) (clock_readings ev)
        | Import clk outcome excelJson \<Rightarrow>
            map (\<lambda>i. Inr (JStr (import_id (clk i) i))) [0..<length (clock_readings ev)]
        | _ \<Rightarrow> [])"
    by (cases ev)
       (auto simp add: update_conv' ids_newTradesWithIds
             split: ai_outcome.splits jsval.splits option.splits)
  finally show ?thesis .
qed

lemma readings_Import:
  "clock_readings (Import clk outcome excelJson)
     = map clk [0..<length (clock_readings (Import clk outcome excelJson))]"
  by (cases "Import clk outcome excelJson" rule: clock_readings.cases) auto

lemma step_keeps_ids_distinct:
  assumes "distinct (trade_ids st)" and "set (trade_ids st) \<subseteq> issued_ids T"
    and "set (clock_readings ev) \<inter> T = {}"
  shows "distinct (trade_ids (step ev st)) \<and>
         set (trade_ids (step ev st)) \<subseteq> issued_ids (T \<union> set (clock_readings ev))"
proof (cases ev)
  case (Submit today now f)
  show ?thesis
  proof (cases "falsy_field (map_of f ''pair'') \<or> falsy_field (map_of f ''pnl'')")
    case True
    have "trade_ids (step ev st) = trade_ids st"
      by (subst ids_step) (simp add: Submit True)
    moreover have "clock_readings ev = []" by (simp add: Submit True)
    ultimately show ?thesis using assms(1,2) by simp
  next
    case False
    have ids: "trade_ids (step ev st) = trade_ids st @ [Inr (JStr (show_nat now))]"
      by (subst ids_step) (simp add: Submit False)
    have rd: "clock_readings ev = [now]" by (simp add: Submit False)
    with assms(3) have "now \<notin> T" by simp
    then have "Inr (JStr (show_nat now)) \<notin> issued_ids T" by (rule form_id_fresh)
    with assms(2) have new: "Inr (JStr (show_nat now)) \<notin> set (trade_ids st)" by blast
    have "Inr (JStr (show_nat now)) \<in> issued_ids (T \<union> {now})" by (simp add: issued_ids_def)
    moreover have "issued_ids T \<subseteq> issued_ids (T \<union> {now})" by (rule issued_ids_mono) blast
    ultimately show ?thesis using assms(1,2) new by (auto simp add: ids rd)
  qed
next
  case (Import clk outcome excelJson)
  let ?n = "length (clock_readings ev)"
  let ?new = "map (\<lambda>i. Inr (JStr (import_id (clk i) i)) :: error + jsval) [0..<?n]"
  have ids: "trade_ids (step ev st) = trade_ids st @ ?new"
    by (subst ids_step) (simp add: Import)
  have rd: "\<And>i. i < ?n \<Longrightarrow> clk i \<in> set (clock_readings ev)"
  proof -
    fix i assume i: "i < ?n"
    have "clock_readings ev ! i = map clk [0..<?n] ! i"
      using readings_Import [of clk outcome excelJson] by (simp add: Import)
    with i have "clock_readings ev ! i = clk i" by simp
    with i show "clk i \<in> set (clock_readings ev)" by (metis nth_mem)
  qed
  have fresh: "\<And>i. i < ?n \<Longrightarrow> Inr (JStr (import_id (clk i) i)) \<notin> set (trade_ids st)"
  proof -
    fix i assume "i < ?n"
    then have "clk i \<notin> T" using rd assms(3) by blast
    then have "Inr (JStr (import_id (clk i) i)) \<notin> issued_ids T" by (rule import_id_fresh)
    with assms(2) show "Inr (JStr (import_id (clk i) i)) \<notin> set (trade_ids st)" by blast
  qed
  have d: "distinct (trade_ids st @ ?new)"
    using assms(1) fresh by (auto simp add: import_ids_distinct)
  have "set ?new \<subseteq> issued_ids (T \<union> set (clock_readings ev))"
    using rd by (auto simp add: issued_ids_def)
  moreover have "issued_ids T \<subseteq> issued_ids (T \<union> set (clock_readings ev))"
    by (rule issued_ids_mono) blast
  ultimately show ?thesis using d assms(2) by (auto simp add: ids)
next
  case (Analyse outcome)
  have "trade_ids (step ev st) = trade_ids st" by (subst ids_step) (simp add: Analyse)
  moreover have "clock_readings ev = []" by (simp add: Analyse)
  ultimately show ?thesis using assms(1,2) by simp
next
  case Download
  have "trade_ids (step ev st) = trade_ids st" by (subst ids_step) (simp add: Download)
  moreover have "clock_readings ev = []" by (simp add: Download)
  ultimately show ?thesis using assms(1,2) by simp
qed

lemma run_Cons: "run (ev # evs) st = run evs (step ev st)"
  by (simp add: run_def)

lemma run_append: "run (evs @ evs') st = run evs' (run evs st)"
  by (simp add: run_def)

lemma run_keeps_ids_distinct:
  "fresh_clock evs \<Longrightarrow> \<forall>ev \<in> set evs. set (clock_readings ev) \<inter> T = {} \<Longrightarrow>
   distinct (trade_ids st) \<Longrightarrow> set (trade_ids st) \<subseteq> issued_ids T \<Longrightarrow>
     distinct (trade_ids (run evs st))"
proof (induction evs arbitrary: st T)
  case Nil
  then show ?case by (simp add: run_def)
next
  case (Cons ev evs)
  from Cons.prems have inv: "distinct (trade_ids (step ev st)) \<and>
      set (trade_ids (step ev st)) \<subseteq> issued_ids (T \<union> set (clock_readings ev))"
    by (intro step_keeps_ids_distinct) auto
  have "\<forall>ev' \<in> set evs. set (clock_readings ev') \<inter> (T \<union> set (clock_readings ev)) = {}"
    using Cons.prems(1,2) by auto
  with Cons.IH [of "T \<union> set (clock_readings ev)" "step ev st"] Cons.prems(1) inv
  show ?case by (simp add: run_Cons)
qed

lemma run_extends_trades: "prefix (trades st) (trades (run evs st))"
proof (induction evs arbitrary: st)
  case Nil
  then show ?case by (simp add: run_def)
next
  case (Cons ev evs)
  have "prefix (trades st) (trades (step ev st))" by (subst trades_step) simp
  with Cons [of "step ev st"] show ?case by (auto simp add: run_Cons intro: prefix_order.trans)
qed

subsection \<open>Enum fields of the form\<close>

lemma enum_fields_are_selects:
  "list_all (\<lambda>(k, vs). \<exists>os. map_of form_elements k = Some (''select-one'', Some os) \<and> set os \<subseteq> set vs)
     enum_fields"
  by (simp add: enum_fields_def form_elements_def)

lemma enum_field_is_select:
  assumes "(k, vs) \<in> set enum_fields"
  shows "\<exists>os. map_of form_elements k = Some (''select-one'', Some os) \<and> set os \<subseteq> set vs"
proof -
  have "\<forall>x \<in> set enum_fields. case x of (k, vs) \<Rightarrow>
          \<exists>os. map_of form_elements k = Some (''select-one'', Some os) \<and> set os \<subseteq> set vs"
    using enum_fields_are_selects by (simp only: list_all_iff)
  from bspec [OF this assms] show ?thesis by simp
qed

lemma enum_fields_not_set_by_submit:
  "list_all (\<lambda>(k, vs). k \<noteq> ''id'' \<and> k \<noteq> ''commission'' \<and> k \<noteq> ''pnl'' \<and> k \<noteq> ''lotSize'') enum_fields"
  by (simp add: enum_fields_def)

lemma enum_field_not_overwritten:
  assumes "(k, vs) \<in> set enum_fields"
  shows "k \<noteq> ''id'' \<and> k \<noteq> ''commission'' \<and> k \<noteq> ''pnl'' \<and> k \<noteq> ''lotSize''"
proof -
  have "\<forall>x \<in> set enum_fields. case x of (k, vs) \<Rightarrow>
          k \<noteq> ''id'' \<and> k \<noteq> ''commission'' \<and> k \<noteq> ''pnl'' \<and> k \<noteq> ''lotSize''"
    using enum_fields_not_set_by_submit by (simp only: list_all_iff)
  from bspec [OF this assms] show ?thesis by simp
qed

lemma enums_declared_iff:
  "enums_declared t \<longleftrightarrow> (\<forall>(k, vs) \<in> set enum_fields. \<exists>v \<in> set vs. field t k = Inr (JStr v))"
  by (simp only: enums_declared_def list_all_iff list_ex_iff split_def)

lemma form_enums_declared_iff:
  "form_enums_declared f \<longleftrightarrow> (\<forall>(k, vs) \<in> set enum_fields. \<exists>v \<in> set vs. map_of f k = Some (Text v))"
  by (simp only: form_enums_declared_def list_all_iff list_ex_iff split_def)

lemma initialFormState_enums: "form_enums_declared (initialFormState today)"
  by (simp add: form_enums_declared_def enum_fields_def initialFormState_def)

lemma handleChange_enums:
  assumes "dom_event e" and "form_enums_declared f"
  shows "form_enums_declared (handleChange e f)"
  unfolding form_enums_declared_iff
proof (clarify)
  fix k vs assume kv: "(k, vs) \<in> set enum_fields"
  from enum_field_is_select [OF kv] obtain os
    where sel: "map_of form_elements k = Some (''select-one'', Some os)" and sub: "set os \<subseteq> set vs"
    by blast
  from assms(2) kv obtain v where v: "v \<in> set vs" "map_of f k = Some (Text v)"
    unfolding form_enums_declared_iff by blast
  show "\<exists>v \<in> set vs. map_of (handleChange e f) k = Some (Text v)"
  proof (cases "target_name e = k")
    case True
    with assms(1) sel have "target_type e = ''select-one''" and "target_value e \<in> set os"
      by (auto simp add: dom_event_def)
    with True sub show ?thesis
      by (auto simp add: handleChange_def update_conv')
  next
    case False
    with v show ?thesis by (auto simp add: handleChange_def update_conv' Let_def)
  qed
qed

lemma foldl_handleChange_enums:
  "list_all dom_event evs \<Longrightarrow> form_enums_declared f \<Longrightarrow>
     form_enums_declared (foldl (\<lambda>f e. handleChange e f) f evs)"
  by (induction evs arbitrary: f) (simp_all add: handleChange_enums)

lemma form_after_enums: "list_all dom_event evs \<Longrightarrow> form_enums_declared (form_after today evs)"
  by (simp add: form_after_def foldl_handleChange_enums initialFormState_enums)

lemma map_of_form_js: "map_of (form_js f) k = map_option form_value_js (map_of f k)"
  by (simp add: form_js_def map_of_map)

lemma submitted_enums:
  assumes "form_enums_declared f"
  shows "enums_declared (JObj (AList.update ''id'' v (submitted_trade f)))"
  unfolding enums_declared_iff
proof (clarify)
  fix k vs assume kv: "(k, vs) \<in> set enum_fields"
  from assms kv obtain w where w: "w \<in> set vs" "map_of f k = Some (Text w)"
    unfolding form_enums_declared_iff by blast
  from enum_field_not_overwritten [OF kv] w(2)
  have "field (JObj (AList.update ''id'' v (submitted_trade f))) k = Inr (JStr w)"
    by (simp add: submitted_trade_def update_conv' map_of_form_js)
  with w(1) show "\<exists>v'\<in>set vs. field (JObj (AList.update ''id'' v (submitted_trade f))) k = Inr (JStr v')"
    by blast
qed

lemma nth_newTradesWithIds:
  "i < length xs \<Longrightarrow>
     newTradesWithIds clk xs ! i = JObj (AList.update ''id'' (JStr (import_id (clk i) i)) (spread (xs ! i)))"
  by (simp add: newTradesWithIds_def nth_enumerate_eq)

subsection \<open>Facts about the example inputs\<close>

lemma fill_events_dom: "list_all dom_event fill_events"
  by (simp add: fill_events_def dom_event_def form_elements_def)

lemma filled_form_fields:
  "map_of filled_form ''pair'' = Some (Text ''EURUSD'')"
  "map_of filled_form ''pnl'' = Some (Text ''150000'')"
  by (simp_all add: filled_form_def fill_events_def form_after_def handleChange_def
      initialFormState_def update_conv')

lemma filled_form_accepted:
  "\<not> (falsy_field (map_of filled_form ''pair'') \<or> falsy_field (map_of filled_form ''pnl''))"
  by (simp add: filled_form_fields)

lemma unparseable_form_fields:
  "map_of unparseable_form ''pair'' = Some (Text ''XAUUSD'')"
  "map_of unparseable_form ''pnl'' = Some (Text ''-50000'')"
  "map_of unparseable_form ''lotSize'' = Some (Text ''abc'')"
  "map_of unparseable_form ''commission'' = Some (Text [])"
  by (simp_all add: unparseable_form_def form_after_def handleChange_def
      initialFormState_def update_conv')

lemma parseFloat_empty: "parseFloat [] = NaN"
  by (simp add: parseFloat_def split_sign_def)

lemma parseFloat_abc: "parseFloat ''abc'' = NaN"
  by (simp add: parseFloat_def split_sign_def StrWhiteSpaceChar_def is_digit_def)

lemma three_trades_csv: "list_all csv_row_ok three_trades"
  by (simp add: three_trades_def)

text \<open>With the complete answer on display the export writes one workbook of six sheets.\<close>

lemma export_of_full_result:
  "\<exists>wb. handleDownload three_trade_state
     = Inr (three_trade_state\<lparr>files := [(''AI_Trading_Analysis.xlsx'', wb)]\<rparr>) \<and>
     map fst wb = [''Analysis Summary'', ''All Trades'', ''Cumulative PnL Data'',
                   ''Outcome Distribution Data'', ''Session PnL Data'', ''Grade PnL Data'']"
  by (simp add: handleDownload_def three_trade_state_def initial_state_def build_workbook_def
      summaryData_def chartWsData_def full_result_def chart_def bind_err_def enumerate_eq_zip)

section \<open>The claims\<close>

subsection \<open>C1: net profit and loss against profit and loss\<close>

lemma sum_net_pnl:
  "sum_list (map (\<lambda>t. pnl t - commission t) ts) = sum_list (map pnl ts) - sum_list (map commission ts)"
  by (induction ts) simp_all

lemma sum_pnl_by_sign:
  "sum_list (map pnl ts)
     = sum_list (map pnl (filter (\<lambda>t. pnl t > 0) ts)) + sum_list (map pnl (filter (\<lambda>t. pnl t < 0) ts))"
  by (induction ts) auto

lemma sum_negative_pnl: "sum_list (map pnl (filter (\<lambda>t. pnl t < 0) ts)) \<le> 0"
  by (induction ts) auto

text \<open>
  C1 as stated fails. On the scenario of the specification the metrics, computed as the
  claim itself defines them, give \<open>totalNetPnl = 33000\<close> but
  \<open>totalProfit - totalLoss = 50000\<close>: the commissions are in the first and not in the
  second.
\<close>

theorem net_pnl_counterexample:
  "totalNetPnl scenario_trades = 33000 \<and>
   totalProfit scenario_trades - totalLoss scenario_trades = 50000 \<and>
   totalNetPnl scenario_trades \<noteq> totalProfit scenario_trades - totalLoss scenario_trades"
  by (simp add: totalNetPnl_def totalProfit_def totalLoss_def scenario_trades_def)

text \<open>
  C1, amended: for every trade collection, \<open>totalNetPnl = totalProfit - totalLoss -
  totalCommissions\<close> in exact arithmetic, with \<open>totalLoss\<close> the positive magnitude of the
  summed negative \<open>pnl\<close> and \<open>totalCommissions\<close> the summed \<open>commission\<close>.
\<close>

theorem net_pnl_identity:
  "totalNetPnl ts = totalProfit ts - totalLoss ts - totalCommissions ts"
proof -
  have "totalLoss ts = - sum_list (map pnl (filter (\<lambda>t. pnl t < 0) ts))"
    using sum_negative_pnl [of ts] by (simp add: totalLoss_def)
  then show ?thesis
    by (simp add: totalNetPnl_def totalProfit_def totalCommissions_def sum_net_pnl
        sum_pnl_by_sign [of ts])
qed

theorem net_pnl_identity_witness:
  "totalNetPnl scenario_trades = 33000 \<and>
   totalProfit scenario_trades - totalLoss scenario_trades - totalCommissions scenario_trades = 33000"
  using net_pnl_identity [of scenario_trades]
  by (simp add: totalNetPnl_def scenario_trades_def)

subsection \<open>C2: enum fields after creation\<close>

text \<open>
  C2 as stated fails. The import stores each element of the model's answer as it is, with
  an id added: an answer that says \<^verbatim>\<open>buy\<close> for the position and leaves the other enum
  fields out becomes a trade of the journal.
\<close>

theorem import_enum_counterexample:
  "\<not> list_all enums_declared
       (trades (runAiImport (clock_at 1700000000000) (Json (JArr [model_trade])) (Some [sheet_row])
          initial_state))"
  by (simp add: trades_runAiImport newTradesWithIds_def initial_state_def model_trade_def
      enums_declared_def enum_fields_def update_conv')

text \<open>
  C2, amended: a trade created by form submission holds a declared value in each of the
  six enum fields, whatever change events the form's elements fired before; a trade
  created by the import holds under every key but \<^verbatim>\<open>id\<close>, so in each enum field, what
  the corresponding element of the model's answer holds there: nothing is coerced, and a
  missing field stays missing.
\<close>

theorem enum_fields_by_creation_path:
  "(list_all dom_event evs \<longrightarrow>
      list_all enums_declared
        (drop (length (trades st)) (trades (snd (handleSubmit today' now (form_after today evs) st))))) \<and>
   (\<forall>i k. i < length xs \<and> rows \<noteq> [] \<and> k \<noteq> ''id'' \<longrightarrow>
      field (trades (runAiImport clk (Json (JArr xs)) (Some rows) st) ! (length (trades st) + i)) k
        = field (JObj (spread (xs ! i))) k)"
proof (intro conjI impI allI)
  assume "list_all dom_event evs"
  then have "form_enums_declared (form_after today evs)" by (rule form_after_enums)
  then show "list_all enums_declared
        (drop (length (trades st)) (trades (snd (handleSubmit today' now (form_after today evs) st))))"
    by (simp add: trades_handleSubmit submitted_enums)
next
  fix i k assume a: "i < length xs \<and> rows \<noteq> [] \<and> k \<noteq> ''id''"
  then have "trades (runAiImport clk (Json (JArr xs)) (Some rows) st) ! (length (trades st) + i)
      = JObj (AList.update ''id'' (JStr (import_id (clk i) i)) (spread (xs ! i)))"
    by (simp add: trades_runAiImport nth_newTradesWithIds)
  with a show "field (trades (runAiImport clk (Json (JArr xs)) (Some rows) st) ! (length (trades st) + i)) k
        = field (JObj (spread (xs ! i))) k"
    by (simp add: update_conv')
qed

theorem enum_fields_by_creation_path_witness:
  "list_all enums_declared
     (trades (snd (handleSubmit ''2024-01-02'' 1700000000000 filled_form initial_state))) \<and>
   field (trades (runAiImport (clock_at 1700000000000) (Json (JArr [model_trade])) (Some [sheet_row])
            initial_state) ! 0) ''position''
     = Inr (JStr ''buy'')"
proof -
  note inst = enum_fields_by_creation_path
    [where evs = fill_events and st = initial_state and today = "''2024-01-01''"
       and today' = "''2024-01-02''" and now = 1700000000000 and xs = "[model_trade]"
       and rows = "[sheet_row]" and clk = "clock_at 1700000000000"]
  have "list_all enums_declared
     (drop (length (trades initial_state))
        (trades (snd (handleSubmit ''2024-01-02'' 1700000000000 (form_after ''2024-01-01'' fill_events) initial_state))))"
    by (rule inst [THEN conjunct1, THEN mp, OF fill_events_dom])
  then have a: "list_all enums_declared
     (trades (snd (handleSubmit ''2024-01-02'' 1700000000000 filled_form initial_state)))"
    by (simp add: initial_state_def filled_form_def)
  have prem: "0 < length [model_trade] \<and> [sheet_row] \<noteq> [] \<and> ''position'' \<noteq> ''id''"
    by simp
  have "field (trades (runAiImport (clock_at 1700000000000) (Json (JArr [model_trade])) (Some [sheet_row])
               initial_state) ! (length (trades initial_state) + 0)) ''position''
        = field (JObj (spread ([model_trade] ! 0))) ''position''"
    by (rule inst [THEN conjunct2, THEN spec, THEN spec, THEN mp, OF prem])
  then have b: "field (trades (runAiImport (clock_at 1700000000000) (Json (JArr [model_trade])) (Some [sheet_row])
            initial_state) ! 0) ''position'' = Inr (JStr ''buy'')"
    by (simp add: initial_state_def model_trade_def)
  from a b show ?thesis by (rule conjI)
qed

subsection \<open>C3: ids are unique\<close>

text \<open>
  C3 as stated fails. The id of a submitted trade is the clock reading alone, and
  \<^verbatim>\<open>Date.now()\<close> is the wall clock: two submissions that read the same value of it get
  the same id.
\<close>

theorem duplicate_id_counterexample:
  "\<not> distinct (trade_ids (run [Submit ''2024-01-01'' 1700000000000 filled_form,
                                Submit ''2024-01-01'' 1700000000000 filled_form] initial_state))"
  by (simp add: run_def trade_ids_def trades_handleSubmit filled_form_accepted update_conv')

text \<open>
  C3, amended: in every run from the empty journal in which no value of the clock is read
  by two different operations, the ids of the trades are pairwise distinct, whether the
  trades come from the form, from one import or from several operations; and an operation
  only appends to the journal, so a trade and its id stay as they were created.
\<close>

theorem ids_unique_under_fresh_clock:
  "fresh_clock evs \<Longrightarrow>
     distinct (trade_ids (run evs initial_state)) \<and>
     (\<forall>evs'. prefix evs' evs \<longrightarrow>
        prefix (trades (run evs' initial_state)) (trades (run evs initial_state)))"
proof
  assume "fresh_clock evs"
  then show "distinct (trade_ids (run evs initial_state))"
    by (rule run_keeps_ids_distinct [where T = "{}"]) (simp_all add: trade_ids_def initial_state_def)
next
  show "\<forall>evs'. prefix evs' evs \<longrightarrow>
          prefix (trades (run evs' initial_state)) (trades (run evs initial_state))"
    by (auto simp add: run_append run_extends_trades elim!: prefixE)
qed

theorem ids_unique_under_fresh_clock_witness:
  "fresh_clock example_run \<and> distinct (trade_ids (run example_run initial_state))"
proof -
  have h: "fresh_clock example_run"
    by (simp add: example_run_def filled_form_accepted clock_at_def)
  show ?thesis
    by (rule conjI [OF h ids_unique_under_fresh_clock [OF h, THEN conjunct1]])
qed

subsection \<open>C4: analysis needs three trades\<close>

text \<open>
  C4: with fewer than three trades in the journal, \<^verbatim>\<open>runAiAnalysis\<close> shows the message
  and returns: the state is the one before with the message added, so the trades and the
  displayed result are unchanged, and no request is sent.
\<close>

theorem analysis_below_minimum_rejected:
  "length (trades st) < 3 \<Longrightarrow>
     runAiAnalysis outcome st
       = st\<lparr>alerts := alerts st @ [''Please add at least 3 trades to run AI analysis.'']\<rparr>"
  by (simp add: runAiAnalysis_def alert_def)

theorem analysis_below_minimum_rejected_witness:
  "length (trades two_trade_state) < 3 \<and>
   runAiAnalysis (Json JNull) two_trade_state
     = two_trade_state\<lparr>alerts := [''Please add at least 3 trades to run AI analysis.'']\<rparr>"
proof -
  have h: "length (trades two_trade_state) < 3"
    by (simp add: two_trade_state_def three_trades_def)
  have "alerts two_trade_state = []" by (simp add: two_trade_state_def initial_state_def)
  with analysis_below_minimum_rejected [OF h, of "Json JNull"] h show ?thesis by simp
qed

subsection \<open>C5: an empty import\<close>

text \<open>
  C5: when the parsed rows are missing or empty, \<^verbatim>\<open>runAiImport\<close> shows the "empty file"
  message and returns: the state is the one before with the message added, so no trade is
  created, no request is sent and the journal is unchanged.
\<close>

theorem empty_import_rejected:
  "runAiImport clk outcome None st
     = st\<lparr>alerts := alerts st @ [''The Excel file is empty or could not be read.'']\<rparr> \<and>
   runAiImport clk outcome (Some []) st
     = st\<lparr>alerts := alerts st @ [''The Excel file is empty or could not be read.'']\<rparr>"
  by (simp add: runAiImport_def alert_def)

theorem empty_import_rejected_witness:
  "trades (runAiImport (clock_at 1700000000000) (Json (JArr [model_trade])) (Some []) three_trade_state)
     = trades three_trade_state \<and>
   requests (runAiImport (clock_at 1700000000000) (Json (JArr [model_trade])) (Some []) three_trade_state)
     = requests three_trade_state"
  using empty_import_rejected [of "clock_at 1700000000000" "Json (JArr [model_trade])" three_trade_state]
  by simp

subsection \<open>C6: a failed analysis clears the result\<close>

text \<open>
  C6: when an analysis run (three trades or more) fails, because building the client or
  the request throws, the call throws or the response text does not parse, the displayed
  result is absent afterwards (\<^verbatim>\<open>null\<close>), whatever it was before; the journal is unchanged and the
  user is told.
\<close>

theorem failed_analysis_clears_result:
  "3 \<le> length (trades st) \<Longrightarrow>
   \<not> list_all csv_row_ok (trades st) \<or> outcome = ClientError \<or> outcome = CallError \<or>
   outcome = BadJson \<Longrightarrow>
     analysisResult (runAiAnalysis outcome st) = JNull \<and>
     trades (runAiAnalysis outcome st) = trades st \<and>
     alerts (runAiAnalysis outcome st)
       = alerts st @ [''An error occurred during AI analysis. Please check the console for details.'']"
  by (auto simp add: runAiAnalysis_def analysis_failed_def alert_def console_error_def Let_def)

theorem failed_analysis_clears_result_witness:
  "3 \<le> length (trades three_trade_state) \<and>
   analysisResult three_trade_state = full_result \<and>
   analysisResult (runAiAnalysis BadJson three_trade_state) = JNull \<and>
   analysisResult (runAiAnalysis CallError three_trade_state) = JNull"
proof -
  have h: "3 \<le> length (trades three_trade_state)"
    by (simp add: three_trade_state_def three_trades_def)
  have r: "analysisResult three_trade_state = full_result"
    by (simp add: three_trade_state_def)
  from h r failed_analysis_clears_result [OF h, of BadJson]
    failed_analysis_clears_result [OF h, of CallError]
  show ?thesis by simp
qed

subsection \<open>C7: the sample sent to the model\<close>

text \<open>
  C7: an import sends the model the first 100 rows, in input order, and nothing else of
  the rows: the whole outcome of \<^verbatim>\<open>runAiImport\<close> is the same as on the first 100 rows
  alone, and the request it sends (when the client can be built) carries exactly those.
\<close>

theorem import_sample_first_100:
  "runAiImport clk outcome (Some rows) st = runAiImport clk outcome (Some (take 100 rows)) st \<and>
   (rows \<noteq> [] \<and> outcome \<noteq> ClientError \<longrightarrow>
      requests (runAiImport clk outcome (Some rows) st)
        = requests st @ [ImportRequest (take 100 rows)])"
proof (cases "rows = []")
  case True
  then show ?thesis by simp
next
  case False
  have "runAiImport clk outcome (Some rows) st = runAiImport clk outcome (Some (take 100 rows)) st"
    using False by (simp add: runAiImport_def Let_def min_def)
  moreover have "outcome \<noteq> ClientError \<Longrightarrow> requests (runAiImport clk outcome (Some rows) st)
        = requests st @ [ImportRequest (take 100 rows)]"
    using False
    by (simp add: runAiImport_def Let_def alert_def import_failed_def console_error_def
        split: ai_outcome.splits jsval.splits)
  ultimately show ?thesis by simp
qed

theorem import_sample_first_100_witness:
  "requests (runAiImport (clock_at 1700000000000) (Json (JArr [model_trade]))
              (Some (replicate 150 sheet_row)) initial_state)
     = [ImportRequest (replicate 100 sheet_row)]"
proof -
  have h: "replicate 150 sheet_row \<noteq> [] \<and> Json (JArr [model_trade]) \<noteq> ClientError" by simp
  have "requests initial_state = []" by (simp add: initial_state_def)
  with import_sample_first_100
    [where rows = "replicate 150 sheet_row" and st = initial_state
       and clk = "clock_at 1700000000000" and outcome = "Json (JArr [model_trade])",
     THEN conjunct2, THEN mp, OF h]
  show ?thesis by simp
qed

subsection \<open>C8: loading an absent or corrupt journal\<close>

text \<open>
  C8: when nothing is stored under the key, or the stored text does not parse, the load
  leaves the trades as they are, which at mount is the empty collection; the only other
  effect is the console line for the corrupt text.
\<close>

theorem load_absent_or_corrupt:
  "loadTrades Absent st = st \<and>
   loadTrades Unparseable st = st\<lparr>console := console st @ [''Failed to load trades from local storage:'']\<rparr> \<and>
   trades (loadTrades Absent initial_state) = [] \<and>
   trades (loadTrades Unparseable initial_state) = []"
  by (simp add: loadTrades_def console_error_def initial_state_def)

subsection \<open>C9: defaults of lot size and commission\<close>

text \<open>
  C9: a form submission that passes the check on pair and PnL appends one trade, whose
  \<^verbatim>\<open>lotSize\<close> is \<open>0\<close> when the form's lot size is missing, empty or a text
  \<^verbatim>\<open>parseFloat\<close> reads no number from, and whose \<^verbatim>\<open>commission\<close> is \<open>0\<close> under the
  same conditions on the form's commission.
\<close>

theorem form_numeric_defaults:
  assumes "\<not> falsy_field (map_of f ''pair'')" and "\<not> falsy_field (map_of f ''pnl'')"
  shows "\<exists>t. trades (snd (handleSubmit today now f st)) = trades st @ [t] \<and>
     (map_of f ''lotSize'' = None \<or> map_of f ''lotSize'' = Some (Text []) \<or>
      parseFloat_field (map_of f ''lotSize'') = NaN
        \<longrightarrow> field t ''lotSize'' = Inr (JNum (Fin 0))) \<and>
     (map_of f ''commission'' = None \<or> map_of f ''commission'' = Some (Text []) \<or>
      parseFloat_field (map_of f ''commission'') = NaN
        \<longrightarrow> field t ''commission'' = Inr (JNum (Fin 0)))"
proof -
  let ?t = "JObj (AList.update ''id'' (JStr (show_nat now)) (submitted_trade f))"
  have zero: "\<And>v. v = None \<or> v = Some (Text []) \<or> parseFloat_field v = NaN \<Longrightarrow>
      or_zero (parseFloat_field v) = Fin 0"
    by (auto simp add: parseFloat_empty or_zero_def)
  have l: "field ?t ''lotSize'' = Inr (JNum (or_zero (parseFloat_field (map_of f ''lotSize''))))"
    by (simp add: submitted_trade_def update_conv')
  have c: "field ?t ''commission'' = Inr (JNum (or_zero (parseFloat_field (map_of f ''commission''))))"
    by (simp add: submitted_trade_def update_conv')
  have "trades (snd (handleSubmit today now f st)) = trades st @ [?t]"
    using assms by (simp add: trades_handleSubmit)
  moreover have "map_of f ''lotSize'' = None \<or> map_of f ''lotSize'' = Some (Text []) \<or>
      parseFloat_field (map_of f ''lotSize'') = NaN
        \<longrightarrow> field ?t ''lotSize'' = Inr (JNum (Fin 0))"
    using zero [of "map_of f ''lotSize''"] by (simp only: l) blast
  moreover have "map_of f ''commission'' = None \<or> map_of f ''commission'' = Some (Text []) \<or>
      parseFloat_field (map_of f ''commission'') = NaN
        \<longrightarrow> field ?t ''commission'' = Inr (JNum (Fin 0))"
    using zero [of "map_of f ''commission''"] by (simp only: c) blast
  ultimately show ?thesis by (intro exI [of _ ?t] conjI)
qed

theorem form_numeric_defaults_witness:
  "\<exists>t. trades (snd (handleSubmit ''2024-01-01'' 1700000000000 unparseable_form initial_state)) = [t] \<and>
        field t ''lotSize'' = Inr (JNum (Fin 0)) \<and> field t ''commission'' = Inr (JNum (Fin 0))"
proof -
  have p: "\<not> falsy_field (map_of unparseable_form ''pair'')"
    and q: "\<not> falsy_field (map_of unparseable_form ''pnl'')"
    by (simp_all add: unparseable_form_fields)
  have l: "parseFloat_field (map_of unparseable_form ''lotSize'') = NaN"
    by (simp add: unparseable_form_fields parseFloat_abc)
  have c: "map_of unparseable_form ''commission'' = Some (Text [])"
    by (rule unparseable_form_fields)
  have e: "trades initial_state = []" by (simp add: initial_state_def)
  from form_numeric_defaults [OF p q, of "''2024-01-01''" 1700000000000 initial_state]
  obtain t where "trades (snd (handleSubmit ''2024-01-01'' 1700000000000 unparseable_form initial_state))
        = trades initial_state @ [t]"
    and "field t ''lotSize'' = Inr (JNum (Fin 0))" and "field t ''commission'' = Inr (JNum (Fin 0))"
    using l c by blast
  with e show ?thesis by simp
qed

subsection \<open>C10: export needs a result\<close>

text \<open>
  C10: while no analysis result is present (the state holds a falsy value, \<^verbatim>\<open>null\<close> at
  the start and after a reset), \<^verbatim>\<open>handleDownload\<close> shows the message that asks for the
  analysis first and writes no file; and whenever it does write a file, a result is
  present and the file is the workbook built from that result and the current trades.
\<close>

theorem export_needs_result:
  "(\<not> truthy (analysisResult st) \<longrightarrow>
      handleDownload st
        = Inr (st\<lparr>alerts := alerts st @ [''Please run the AI Analysis first to generate a report.'']\<rparr>)) \<and>
   (\<forall>st'. handleDownload st = Inr st' \<and> files st' \<noteq> files st \<longrightarrow>
      truthy (analysisResult st) \<and>
      (\<exists>wb. build_workbook (analysisResult st) (trades st) = Inr wb \<and>
            st' = st\<lparr>files := files st @ [(''AI_Trading_Analysis.xlsx'', wb)]\<rparr>))"
  by (auto simp add: handleDownload_def alert_def bind_err_def split: sum.splits)

theorem export_needs_result_witness:
  "\<not> truthy (analysisResult (initial_state\<lparr>trades := three_trades\<rparr>)) \<and>
   handleDownload (initial_state\<lparr>trades := three_trades\<rparr>)
     = Inr (initial_state\<lparr>trades := three_trades,
              alerts := [''Please run the AI Analysis first to generate a report.'']\<rparr>)"
proof -
  have h: "\<not> truthy (analysisResult (initial_state\<lparr>trades := three_trades\<rparr>))"
    by (simp add: initial_state_def)
  have "alerts (initial_state\<lparr>trades := three_trades\<rparr>) = []" by (simp add: initial_state_def)
  with export_needs_result [of "initial_state\<lparr>trades := three_trades\<rparr>", THEN conjunct1, THEN mp, OF h] h
  show ?thesis by simp
qed

end
